theory Spec2Isabelle
  imports Main "HOL-Library.Word"
begin

section \<open>The payment channel proxy (raiden/network/proxies/payment_channel.py)\<close>

text \<open>
  The class \<^verbatim>\<open>PaymentChannel\<close> is a thin view of one channel of a token network.
  Its constructor resolves the two participants from the ChannelOpened event, every other
  method forwards to the \<^verbatim>\<open>TokenNetwork\<close> collaborator or reads the event log again.
  The collaborator, the event decoder and the ledger are not part of the file: they are
  parameters of the model. Exceptions are values of \<open>error + 'a\<close>, the ledger is explicit
  state, and every call that reaches the collaborator is appended to a call log.
\<close>

subsection \<open>Data\<close>

type_synonym bytes = "8 word list"
type_synonym address = bytes

text \<open>The exceptions the file raises itself, and \<open>External\<close> for whatever a collaborator
  raises (a rejected transaction, a log entry that does not decode, a transport failure).\<close>

datatype error =
  ValueError string
| AssertionError string
| KeyError string
| RuntimeError string
| External string

text \<open>\<^verbatim>\<open>raiden_contracts.constants.ChannelEvent\<close>: the event kinds of a channel.\<close>

datatype ChannelEvent =
  OPENED | DEPOSIT | WITHDRAW | BALANCE_PROOF_UPDATED | CLOSED | SETTLED | UNLOCKED

text \<open>\<^verbatim>\<open>typing.ChannelUniqueID\<close>: the token address and the integer channel id. Python
  integers are unbounded, so the id is an \<open>int\<close>.\<close>

record ChannelUniqueID =
  token_address :: address
  channel_id :: int

text \<open>Modelled from the spec: \<^verbatim>\<open>raiden.constants.UINT256_MAX\<close>, the largest channel id,
  \<open>2^256 - 1\<close>.\<close>

definition UINT256_MAX :: int where
  "UINT256_MAX = 2 ^ 256 - 1"

text \<open>A decoded event is a dictionary with the keys \<^verbatim>\<open>event\<close>, \<^verbatim>\<open>args\<close> and
  \<^verbatim>\<open>blockNumber\<close>; \<^verbatim>\<open>args\<close> is a dictionary from argument names to values.\<close>

datatype abi_value = Text string | Number int

record decoded_event =
  event :: string
  args :: "string \<rightharpoonup> abi_value"
  blockNumber :: int

text \<open>\<^verbatim>\<open>typing.BlockSpecification\<close>: a block number or a tag such as \<^verbatim>\<open>latest\<close>.\<close>

datatype block_spec = BlockNumber int | BlockTag string

text \<open>A reentrant lock of \<^verbatim>\<open>gevent.lock\<close>: the greenlet that owns it, if any, and how
  many times the owner has acquired it. \<^verbatim>\<open>RLock()\<close> creates it with no owner and count
  zero. Greenlets are numbered.\<close>

datatype rlock = RLock "nat option" int

subsection \<open>The collaborators\<close>

text \<open>The calls that reach the token network, its client or the node behind it, with the
  arguments they are given, and the acquisitions and releases of a lock of the token
  network's registry, with the partner address that is the key.
  \<open>'f\<close> is the type of the filter arguments of a log query.\<close>

datatype 'f ledger_call =
  GetLogs 'f
| Detail address address ChannelUniqueID
| ChannelIsOpened address address ChannelUniqueID
| ChannelIsClosed address address ChannelUniqueID
| ChannelIsSettled address address ChannelUniqueID
| ClosingAddress address address ChannelUniqueID
| CanTransfer address address ChannelUniqueID
| SetTotalDeposit ChannelUniqueID int address
| Close ChannelUniqueID address bytes int bytes bytes
| UpdateTransfer ChannelUniqueID address bytes int bytes bytes bytes
| Unlock ChannelUniqueID address bytes
| Settle ChannelUniqueID int int bytes address int int bytes
| NewFilter address "string option list" "block_spec option" "block_spec option"
| AcquireLock address
| ReleaseLock address

text \<open>The \<^verbatim>\<open>TokenNetwork\<close> object as far as the file uses it. \<open>'s\<close> is the state of the
  ledger, \<open>'l\<close> a raw log entry, \<open>'d\<close> the channel details and \<open>'h\<close> a filter handle.
  Queries read the ledger, transactions return the ledger they leave behind.
  \<open>tn_getLogs\<close> stands for \<^verbatim>\<open>token_network.proxy.contract.web3.eth.getLogs\<close> and
  \<open>tn_new_filter\<close> for \<^verbatim>\<open>token_network.client.new_filter\<close>.\<close>

record ('s, 'f, 'l, 'd, 'h) TokenNetwork =
  tn_address :: address
  tn_node_address :: address
  tn_getLogs :: "'f \<Rightarrow> 's \<Rightarrow> error + 'l list"
  tn_detail :: "address \<Rightarrow> address \<Rightarrow> ChannelUniqueID \<Rightarrow> 's \<Rightarrow> error + 'd"
  tn_channel_is_opened :: "address \<Rightarrow> address \<Rightarrow> ChannelUniqueID \<Rightarrow> 's \<Rightarrow> error + bool"
  tn_channel_is_closed :: "address \<Rightarrow> address \<Rightarrow> ChannelUniqueID \<Rightarrow> 's \<Rightarrow> error + bool"
  tn_channel_is_settled :: "address \<Rightarrow> address \<Rightarrow> ChannelUniqueID \<Rightarrow> 's \<Rightarrow> error + bool"
  tn_closing_address :: "address \<Rightarrow> address \<Rightarrow> ChannelUniqueID \<Rightarrow> 's \<Rightarrow> error + address"
  tn_can_transfer :: "address \<Rightarrow> address \<Rightarrow> ChannelUniqueID \<Rightarrow> 's \<Rightarrow> error + bool"
  tn_set_total_deposit :: "ChannelUniqueID \<Rightarrow> int \<Rightarrow> address \<Rightarrow> 's \<Rightarrow> (error + unit) \<times> 's"
  tn_close :: "ChannelUniqueID \<Rightarrow> address \<Rightarrow> bytes \<Rightarrow> int \<Rightarrow> bytes \<Rightarrow> bytes
    \<Rightarrow> 's \<Rightarrow> (error + unit) \<times> 's"
  tn_update_transfer :: "ChannelUniqueID \<Rightarrow> address \<Rightarrow> bytes \<Rightarrow> int \<Rightarrow> bytes \<Rightarrow> bytes \<Rightarrow> bytes
    \<Rightarrow> 's \<Rightarrow> (error + unit) \<times> 's"
  tn_unlock :: "ChannelUniqueID \<Rightarrow> address \<Rightarrow> bytes \<Rightarrow> 's \<Rightarrow> (error + unit) \<times> 's"
  tn_settle :: "ChannelUniqueID \<Rightarrow> int \<Rightarrow> int \<Rightarrow> bytes \<Rightarrow> address \<Rightarrow> int \<Rightarrow> int \<Rightarrow> bytes
    \<Rightarrow> 's \<Rightarrow> (error + unit) \<times> 's"
  tn_new_filter :: "address \<Rightarrow> string option list \<Rightarrow> block_spec option \<Rightarrow> block_spec option
    \<Rightarrow> 's \<Rightarrow> (error + 'h) \<times> 's"

text \<open>The functions the file imports: the builder of the filter arguments of one event kind
  of one channel (\<^verbatim>\<open>raiden.utils.filters\<close>), the event decoder with the token network's
  ABI already applied, \<^verbatim>\<open>eth_utils.decode_hex\<close>, and the text that
  \<^verbatim>\<open>str.format\<close> prints for a \<^verbatim>\<open>ChannelUniqueID\<close>.\<close>

record ('f, 'l) externals =
  get_filter_args_for_specific_event_from_channel :: "address \<Rightarrow> int \<Rightarrow> ChannelEvent \<Rightarrow> 'f"
  decode_event :: "'l \<Rightarrow> error + decoded_event"
  decode_hex :: "abi_value \<Rightarrow> error + bytes"
  format_ChannelUniqueID :: "ChannelUniqueID \<Rightarrow> string"

text \<open>What a call can observe and change: the ledger, the lock registry of the token
  network and the log of calls made so far.

  Modelled from the spec: \<^verbatim>\<open>token_network.channel_operations_lock\<close>, the registry of
  reentrant locks keyed by partner address that the collaborator owns; a lock is created
  when its key is first looked up, so the registry is total and \<open>fresh_locks\<close> is the
  registry in which no lock has been taken yet.\<close>

record ('s, 'f) world =
  ledger :: 's
  tn_channel_operations_lock :: "address \<Rightarrow> rlock"
  calls :: "'f ledger_call list"

definition fresh_locks :: "address \<Rightarrow> rlock" where
  "fresh_locks = (\<lambda>partner. RLock None 0)"

subsection \<open>The channel object\<close>

record ('s, 'f, 'l, 'd, 'h) PaymentChannel =
  channel_unique_id :: ChannelUniqueID
  channel_operations_lock :: rlock
  participant1 :: address
  participant2 :: address
  token_network :: "('s, 'f, 'l, 'd, 'h) TokenNetwork"

subsection \<open>Plumbing\<close>

text \<open>Sequencing of steps that may raise: the first exception ends the computation.\<close>

fun and_then :: "error + 'a \<Rightarrow> ('a \<Rightarrow> error + 'b) \<Rightarrow> error + 'b" where
  "and_then (Inl e) f = Inl e"
| "and_then (Inr x) f = f x"

text \<open>\<^verbatim>\<open>d[k]\<close> on a dictionary raises \<^verbatim>\<open>KeyError\<close> for a missing key.\<close>

definition getitem :: "(string \<rightharpoonup> 'v) \<Rightarrow> string \<Rightarrow> error + 'v" where
  "getitem d k = (case d k of None \<Rightarrow> Inl (KeyError k) | Some v \<Rightarrow> Inr v)"

text \<open>A query of the ledger: the call is logged, the ledger stays as it is.\<close>

definition ledger_query ::
  "'f ledger_call \<Rightarrow> ('s \<Rightarrow> error + 'a) \<Rightarrow> ('s, 'f) world \<Rightarrow> (error + 'a) \<times> ('s, 'f) world" where
  "ledger_query c q w = (q (ledger w), w\<lparr>calls := calls w @ [c]\<rparr>)"

text \<open>A transaction or another call that changes the collaborator's state.\<close>

definition ledger_transact ::
  "'f ledger_call \<Rightarrow> ('s \<Rightarrow> (error + 'a) \<times> 's) \<Rightarrow> ('s, 'f) world \<Rightarrow> (error + 'a) \<times> ('s, 'f) world" where
  "ledger_transact c t w =
     (case t (ledger w) of (r, s') \<Rightarrow> (r, w\<lparr>ledger := s', calls := calls w @ [c]\<rparr>))"

subsection \<open>The constructor\<close>

text \<open>
  \<^verbatim>\<open>PaymentChannel.__init__\<close>, lines 17 to 50. The range check comes first and raises
  before anything else is evaluated; then the ChannelOpened log of the channel is queried,
  the last entry is decoded, both participants are read, and the node address has to be
  one of them. When it is the second one the two are swapped.
\<close>

definition PaymentChannel_init ::
  "('f, 'l) externals \<Rightarrow> ('s, 'f, 'l, 'd, 'h) TokenNetwork \<Rightarrow> ChannelUniqueID \<Rightarrow> ('s, 'f) world
    \<Rightarrow> (error + ('s, 'f, 'l, 'd, 'h) PaymentChannel) \<times> ('s, 'f) world" where
  "PaymentChannel_init ext tn cuid w =
     (if channel_id cuid < 0 \<or> channel_id cuid > UINT256_MAX
      then (Inl (ValueError (''channel_identifier of '' @ format_ChannelUniqueID ext cuid
                              @ '' is not a uint256'')), w)
      else
        let filter_args = get_filter_args_for_specific_event_from_channel ext
                            (tn_address tn) (channel_id cuid) OPENED
        in case ledger_query (GetLogs filter_args) (tn_getLogs tn filter_args) w of
          (logs, w') \<Rightarrow>
            (and_then logs (\<lambda>events.
               if \<not> length events > 0 then Inl (ValueError ''Channel is non-existing.'')
               else
                 and_then (decode_event ext (last events)) (\<lambda>ev.
                 and_then (getitem (args ev) ''participant1'') (\<lambda>a1.
                 and_then (decode_hex ext a1) (\<lambda>p1.
                 and_then (getitem (args ev) ''participant2'') (\<lambda>a2.
                 and_then (decode_hex ext a2) (\<lambda>p2.
                   if \<not> (tn_node_address tn = p1 \<or> tn_node_address tn = p2)
                   then Inl (ValueError ''One participant must be the node address'')
                   else
                     case (if tn_node_address tn = p2 then (p2, p1) else (p1, p2)) of
                       (q1, q2) \<Rightarrow>
                         Inr \<lparr>channel_unique_id = cuid,
                              channel_operations_lock = RLock None 0,
                              participant1 = q1,
                              participant2 = q2,
                              token_network = tn\<rparr>)))))),
             w'))"

subsection \<open>The lock of the partner\<close>




subsection \<open>Identity accessors\<close>

definition channel_identifier :: "('s, 'f, 'l, 'd, 'h) PaymentChannel \<Rightarrow> int" where
  "channel_identifier self = channel_id (channel_unique_id self)"

definition PaymentChannel_token_address :: "('s, 'f, 'l, 'd, 'h) PaymentChannel \<Rightarrow> address" where
  "PaymentChannel_token_address self = token_address (channel_unique_id self)"

subsection \<open>Queries\<close>

text \<open>
  A method takes the object and the world and returns its result, the object as the call
  leaves it, and the world. No method of the file assigns to a field of \<^verbatim>\<open>self\<close>.
\<close>

definition detail ::
  "('s, 'f, 'l, 'd, 'h) PaymentChannel \<Rightarrow> ('s, 'f) world
    \<Rightarrow> (error + 'd) \<times> ('s, 'f, 'l, 'd, 'h) PaymentChannel \<times> ('s, 'f) world" where
  "detail self w =
     (case ledger_query
             (Detail (participant1 self) (participant2 self) (channel_unique_id self))
             (tn_detail (token_network self)
                (participant1 self) (participant2 self) (channel_unique_id self)) w of
        (r, w') \<Rightarrow> (r, self, w'))"

text \<open>\<^verbatim>\<open>settle_timeout\<close>, lines 73 to 89: the ChannelOpened log is read again; the
  \<^verbatim>\<open>assert\<close> raises \<^verbatim>\<open>AssertionError\<close> with its message when the log is empty.\<close>

definition settle_timeout ::
  "('f, 'l) externals \<Rightarrow> ('s, 'f, 'l, 'd, 'h) PaymentChannel \<Rightarrow> ('s, 'f) world
    \<Rightarrow> (error + abi_value) \<times> ('s, 'f, 'l, 'd, 'h) PaymentChannel \<times> ('s, 'f) world" where
  "settle_timeout ext self w =
     (let filter_args = get_filter_args_for_specific_event_from_channel ext
                          (tn_address (token_network self)) (channel_identifier self) OPENED
      in case ledger_query (GetLogs filter_args)
                (tn_getLogs (token_network self) filter_args) w of
        (logs, w') \<Rightarrow>
          (and_then logs (\<lambda>events.
             if \<not> length events > 0
             then Inl (AssertionError ''No matching ChannelOpen event found.'')
             else
               and_then (decode_event ext (last events)) (\<lambda>ev.
                 getitem (args ev) ''settle_timeout'')),
           self, w'))"

text \<open>\<^verbatim>\<open>close_block_number\<close>, lines 91 to 108: \<^verbatim>\<open>None\<close> for an empty ChannelClosed
  log, an \<^verbatim>\<open>AssertionError\<close> without message unless exactly one entry is there.\<close>

definition close_block_number ::
  "('f, 'l) externals \<Rightarrow> ('s, 'f, 'l, 'd, 'h) PaymentChannel \<Rightarrow> ('s, 'f) world
    \<Rightarrow> (error + int option) \<times> ('s, 'f, 'l, 'd, 'h) PaymentChannel \<times> ('s, 'f) world" where
  "close_block_number ext self w =
     (let filter_args = get_filter_args_for_specific_event_from_channel ext
                          (tn_address (token_network self)) (channel_identifier self) CLOSED
      in case ledger_query (GetLogs filter_args)
                (tn_getLogs (token_network self) filter_args) w of
        (logs, w') \<Rightarrow>
          (and_then logs (\<lambda>events.
             if events = [] then Inr None
             else if length events \<noteq> 1 then Inl (AssertionError [])
             else
               and_then (decode_event ext (events ! 0)) (\<lambda>ev.
                 Inr (Some (blockNumber ev)))),
           self, w'))"

definition opened ::
  "('s, 'f, 'l, 'd, 'h) PaymentChannel \<Rightarrow> ('s, 'f) world
    \<Rightarrow> (error + bool) \<times> ('s, 'f, 'l, 'd, 'h) PaymentChannel \<times> ('s, 'f) world" where
  "opened self w =
     (case ledger_query
             (ChannelIsOpened (participant1 self) (participant2 self) (channel_unique_id self))
             (tn_channel_is_opened (token_network self)
                (participant1 self) (participant2 self) (channel_unique_id self)) w of
        (r, w') \<Rightarrow> (r, self, w'))"

definition closed ::
  "('s, 'f, 'l, 'd, 'h) PaymentChannel \<Rightarrow> ('s, 'f) world
    \<Rightarrow> (error + bool) \<times> ('s, 'f, 'l, 'd, 'h) PaymentChannel \<times> ('s, 'f) world" where
  "closed self w =
     (case ledger_query
             (ChannelIsClosed (participant1 self) (participant2 self) (channel_unique_id self))
             (tn_channel_is_closed (token_network self)
                (participant1 self) (participant2 self) (channel_unique_id self)) w of
        (r, w') \<Rightarrow> (r, self, w'))"

definition settled ::
  "('s, 'f, 'l, 'd, 'h) PaymentChannel \<Rightarrow> ('s, 'f) world
    \<Rightarrow> (error + bool) \<times> ('s, 'f, 'l, 'd, 'h) PaymentChannel \<times> ('s, 'f) world" where
  "settled self w =
     (case ledger_query
             (ChannelIsSettled (participant1 self) (participant2 self) (channel_unique_id self))
             (tn_channel_is_settled (token_network self)
                (participant1 self) (participant2 self) (channel_unique_id self)) w of
        (r, w') \<Rightarrow> (r, self, w'))"

definition closing_address ::
  "('s, 'f, 'l, 'd, 'h) PaymentChannel \<Rightarrow> ('s, 'f) world
    \<Rightarrow> (error + address) \<times> ('s, 'f, 'l, 'd, 'h) PaymentChannel \<times> ('s, 'f) world" where
  "closing_address self w =
     (case ledger_query
             (ClosingAddress (participant1 self) (participant2 self) (channel_unique_id self))
             (tn_closing_address (token_network self)
                (participant1 self) (participant2 self) (channel_unique_id self)) w of
        (r, w') \<Rightarrow> (r, self, w'))"

definition can_transfer ::
  "('s, 'f, 'l, 'd, 'h) PaymentChannel \<Rightarrow> ('s, 'f) world
    \<Rightarrow> (error + bool) \<times> ('s, 'f, 'l, 'd, 'h) PaymentChannel \<times> ('s, 'f) world" where
  "can_transfer self w =
     (case ledger_query
             (CanTransfer (participant1 self) (participant2 self) (channel_unique_id self))
             (tn_can_transfer (token_network self)
                (participant1 self) (participant2 self) (channel_unique_id self)) w of
        (r, w') \<Rightarrow> (r, self, w'))"

subsection \<open>Transactions\<close>

text \<open>Lines 150 to 219. Each method is one call of the collaborator with the partner
  \<^verbatim>\<open>self.participant2\<close>; what the collaborator raises is raised unchanged.\<close>

definition set_total_deposit ::
  "('s, 'f, 'l, 'd, 'h) PaymentChannel \<Rightarrow> int \<Rightarrow> ('s, 'f) world
    \<Rightarrow> (error + unit) \<times> ('s, 'f, 'l, 'd, 'h) PaymentChannel \<times> ('s, 'f) world" where
  "set_total_deposit self total_deposit w =
     (case ledger_transact
             (SetTotalDeposit (channel_unique_id self) total_deposit (participant2 self))
             (tn_set_total_deposit (token_network self)
                (channel_unique_id self) total_deposit (participant2 self)) w of
        (r, w') \<Rightarrow> (r, self, w'))"

definition close ::
  "('s, 'f, 'l, 'd, 'h) PaymentChannel \<Rightarrow> int \<Rightarrow> bytes \<Rightarrow> bytes \<Rightarrow> bytes \<Rightarrow> ('s, 'f) world
    \<Rightarrow> (error + unit) \<times> ('s, 'f, 'l, 'd, 'h) PaymentChannel \<times> ('s, 'f) world" where
  "close self nonce balance_hash additional_hash signature w =
     (case ledger_transact
             (Close (channel_unique_id self) (participant2 self)
                balance_hash nonce additional_hash signature)
             (tn_close (token_network self) (channel_unique_id self) (participant2 self)
                balance_hash nonce additional_hash signature) w of
        (r, w') \<Rightarrow> (r, self, w'))"

definition update_transfer ::
  "('s, 'f, 'l, 'd, 'h) PaymentChannel \<Rightarrow> int \<Rightarrow> bytes \<Rightarrow> bytes \<Rightarrow> bytes \<Rightarrow> bytes
    \<Rightarrow> ('s, 'f) world
    \<Rightarrow> (error + unit) \<times> ('s, 'f, 'l, 'd, 'h) PaymentChannel \<times> ('s, 'f) world" where
  "update_transfer self nonce balance_hash additional_hash partner_signature signature w =
     (case ledger_transact
             (UpdateTransfer (channel_unique_id self) (participant2 self)
                balance_hash nonce additional_hash partner_signature signature)
             (tn_update_transfer (token_network self)
                (channel_unique_id self) (participant2 self)
                balance_hash nonce additional_hash partner_signature signature) w of
        (r, w') \<Rightarrow> (r, self, w'))"

definition unlock ::
  "('s, 'f, 'l, 'd, 'h) PaymentChannel \<Rightarrow> bytes \<Rightarrow> ('s, 'f) world
    \<Rightarrow> (error + unit) \<times> ('s, 'f, 'l, 'd, 'h) PaymentChannel \<times> ('s, 'f) world" where
  "unlock self merkle_tree_leaves w =
     (case ledger_transact
             (Unlock (channel_unique_id self) (participant2 self) merkle_tree_leaves)
             (tn_unlock (token_network self)
                (channel_unique_id self) (participant2 self) merkle_tree_leaves) w of
        (r, w') \<Rightarrow> (r, self, w'))"

definition settle ::
  "('s, 'f, 'l, 'd, 'h) PaymentChannel \<Rightarrow> int \<Rightarrow> int \<Rightarrow> bytes \<Rightarrow> int \<Rightarrow> int \<Rightarrow> bytes
    \<Rightarrow> ('s, 'f) world
    \<Rightarrow> (error + unit) \<times> ('s, 'f, 'l, 'd, 'h) PaymentChannel \<times> ('s, 'f) world" where
  "settle self transferred_amount locked_amount locksroot
       partner_transferred_amount partner_locked_amount partner_locksroot w =
     (case ledger_transact
             (Settle (channel_unique_id self) transferred_amount locked_amount locksroot
                (participant2 self)
                partner_transferred_amount partner_locked_amount partner_locksroot)
             (tn_settle (token_network self)
                (channel_unique_id self) transferred_amount locked_amount locksroot
                (participant2 self)
                partner_transferred_amount partner_locked_amount partner_locksroot) w of
        (r, w') \<Rightarrow> (r, self, w'))"

subsection \<open>The filter over all events of the channel\<close>

text \<open>
  The format specification \<^verbatim>\<open>064x\<close> prints an integer in lower-case hexadecimal,
  padded with zeros to at least 64 characters; the sign of a negative number comes first
  and counts as one of the 64. A number with more digits is printed in full.
\<close>

definition hex_digit :: "nat \<Rightarrow> char" where
  "hex_digit d = ''0123456789abcdef'' ! d"

function hex_of_nat :: "nat \<Rightarrow> string" where
  "hex_of_nat n = (if n < 16 then [hex_digit n] else hex_of_nat (n div 16) @ [hex_digit (n mod 16)])"
  by pat_completeness auto
termination
  by (relation "measure (\<lambda>n. n)") auto

declare hex_of_nat.simps [simp del]

definition zero_pad :: "nat \<Rightarrow> string \<Rightarrow> string" where
  "zero_pad width s = replicate (width - length s) CHR ''0'' @ s"

definition format_064x :: "int \<Rightarrow> string" where
  "format_064x n =
     (if n < 0 then CHR ''-'' # zero_pad 63 (hex_of_nat (nat (- n)))
      else zero_pad 64 (hex_of_nat (nat n)))"

text \<open>\<^verbatim>\<open>all_events_filter\<close>, lines 221 to 242: the first topic is \<^verbatim>\<open>None\<close>, the
  second the formatted channel id; both block arguments default to \<^verbatim>\<open>None\<close>.\<close>

definition all_events_filter ::
  "('s, 'f, 'l, 'd, 'h) PaymentChannel \<Rightarrow> block_spec option \<Rightarrow> block_spec option
    \<Rightarrow> ('s, 'f) world
    \<Rightarrow> (error + 'h) \<times> ('s, 'f, 'l, 'd, 'h) PaymentChannel \<times> ('s, 'f) world" where
  "all_events_filter self from_block to_block w =
     (let channel_topics = [None, Some (''0x'' @ format_064x (channel_identifier self))]
      in case ledger_transact
                (NewFilter (tn_address (token_network self)) channel_topics from_block to_block)
                (tn_new_filter (token_network self)
                   (tn_address (token_network self)) channel_topics from_block to_block) w of
        (r, w') \<Rightarrow> (r, self, w'))"

subsection \<open>Topics on the ledger\<close>

text \<open>Modelled from the spec: the zero-padded 256-bit encoding of a channel id, which is
  the topic an event of that channel carries: \<^verbatim>\<open>0x\<close> and 64 hexadecimal digits, most
  significant first. \<open>fixed_hex k n\<close> is the numeral of \<open>n\<close> with exactly \<open>k\<close> digits.\<close>

fun fixed_hex :: "nat \<Rightarrow> nat \<Rightarrow> string" where
  "fixed_hex 0 n = []"
| "fixed_hex (Suc k) n = fixed_hex k (n div 16) @ [hex_digit (n mod 16)]"

definition uint256_topic :: "int \<Rightarrow> string" where
  "uint256_topic c = ''0x'' @ fixed_hex 64 (nat c)"

text \<open>Modelled from the spec: how a subscription selects log entries. A position of the
  topic list that is \<^verbatim>\<open>None\<close> leaves the topic at that position unconstrained, any other
  position has to be equal to the topic of the entry; an entry with fewer topics than
  the list does not match.\<close>

fun topics_match :: "string option list \<Rightarrow> string list \<Rightarrow> bool" where
  "topics_match [] ts = True"
| "topics_match (f # fs) [] = False"
| "topics_match (None # fs) (t # ts) = topics_match fs ts"
| "topics_match (Some x # fs) (t # ts) = (x = t \<and> topics_match fs ts)"

section \<open>A ledger to evaluate on\<close>

text \<open>
  A small ledger on which the definitions can be run: its state is the list of the
  events emitted so far, each with its kind and its channel id, the filter arguments are
  the kind and the id, and a raw log entry is the decoded event itself. Every query and
  transaction of the token network succeeds. The node address is a parameter.
\<close>

type_synonym ex_ledger = "(ChannelEvent \<times> int \<times> decoded_event) list"

definition ex_decode_hex :: "abi_value \<Rightarrow> error + bytes" where
  "ex_decode_hex v =
     (if v = Text ''0xaa'' then Inr [0xAA]
      else if v = Text ''0xbb'' then Inr [0xBB]
      else if v = Text ''0xcc'' then Inr [0xCC]
      else Inl (External ''not a hexadecimal string''))"

definition ex_ext :: "(ChannelEvent \<times> int, decoded_event) externals" where
  "ex_ext =
     \<lparr>get_filter_args_for_specific_event_from_channel = (\<lambda>a c k. (k, c)),
      decode_event = Inr,
      decode_hex = ex_decode_hex,
      format_ChannelUniqueID = (\<lambda>c. ''ChannelUniqueID'')\<rparr>"

definition ex_getLogs :: "ChannelEvent \<times> int \<Rightarrow> ex_ledger \<Rightarrow> error + decoded_event list" where
  "ex_getLogs f s = Inr (map (\<lambda>e. snd (snd e)) (filter (\<lambda>e. (fst e, fst (snd e)) = f) s))"

definition ex_tn :: "address \<Rightarrow> (ex_ledger, ChannelEvent \<times> int, decoded_event, unit, nat) TokenNetwork" where
  "ex_tn node =
     \<lparr>tn_address = [0x11],
      tn_node_address = node,
      tn_getLogs = ex_getLogs,
      tn_detail = (\<lambda>p1 p2 c s. Inr ()),
      tn_channel_is_opened = (\<lambda>p1 p2 c s. Inr True),
      tn_channel_is_closed = (\<lambda>p1 p2 c s. Inr False),
      tn_channel_is_settled = (\<lambda>p1 p2 c s. Inr False),
      tn_closing_address = (\<lambda>p1 p2 c s. Inr []),
      tn_can_transfer = (\<lambda>p1 p2 c s. Inr True),
      tn_set_total_deposit = (\<lambda>c d p s. (Inr (), s)),
      tn_close = (\<lambda>c p b n a sg s. (Inr (), s)),
      tn_update_transfer = (\<lambda>c p b n a sg1 sg2 s. (Inr (), s)),
      tn_unlock = (\<lambda>c p m s. (Inr (), s)),
      tn_settle = (\<lambda>c t l r p pt pl pr s. (Inr (), s)),
      tn_new_filter = (\<lambda>a t f u s. (Inr 0, s))\<rparr>"

definition ex_opened :: "string \<Rightarrow> string \<Rightarrow> decoded_event" where
  "ex_opened p1 p2 =
     \<lparr>event = ''ChannelOpened'',
      args = [''channel_identifier'' \<mapsto> Number 7, ''participant1'' \<mapsto> Text p1,
              ''participant2'' \<mapsto> Text p2, ''settle_timeout'' \<mapsto> Number 500],
      blockNumber = 900\<rparr>"

definition ex_world :: "int \<Rightarrow> string \<Rightarrow> string \<Rightarrow> (ex_ledger, ChannelEvent \<times> int) world" where
  "ex_world c p1 p2 =
     \<lparr>ledger = [(OPENED, c, ex_opened p1 p2)],
      tn_channel_operations_lock = fresh_locks,
      calls = []\<rparr>"

definition ex_closed :: "int \<Rightarrow> decoded_event" where
  "ex_closed b =
     \<lparr>event = ''ChannelClosed'',
      args = [''channel_identifier'' \<mapsto> Number 7, ''closing_participant'' \<mapsto> Text ''0xaa'',
              ''nonce'' \<mapsto> Number 3],
      blockNumber = b\<rparr>"

definition ex_channel :: "(ex_ledger, ChannelEvent \<times> int, decoded_event, unit, nat) PaymentChannel" where
  "ex_channel =
     \<lparr>channel_unique_id = \<lparr>token_address = [0x22], channel_id = 7\<rparr>,
      channel_operations_lock = RLock None 0,
      participant1 = [0xBB],
      participant2 = [0xAA],
      token_network = ex_tn [0xBB]\<rparr>"

section \<open>Properties\<close>

subsection \<open>The constructor after the range check\<close>

text \<open>
  For an id in range the constructor makes exactly one call, the log query, and its
  result is computed from what the query returns.
\<close>

lemma in_range_init:
  assumes "0 \<le> channel_id cuid" "channel_id cuid \<le> UINT256_MAX"
  shows "PaymentChannel_init ext tn cuid w =
     (and_then (tn_getLogs tn (get_filter_args_for_specific_event_from_channel ext
                            (tn_address tn) (channel_id cuid) OPENED) (ledger w)) (\<lambda>events.
               if \<not> length events > 0 then Inl (ValueError ''Channel is non-existing.'')
               else
                 and_then (decode_event ext (last events)) (\<lambda>ev.
                 and_then (getitem (args ev) ''participant1'') (\<lambda>a1.
                 and_then (decode_hex ext a1) (\<lambda>p1.
                 and_then (getitem (args ev) ''participant2'') (\<lambda>a2.
                 and_then (decode_hex ext a2) (\<lambda>p2.
                   if \<not> (tn_node_address tn = p1 \<or> tn_node_address tn = p2)
                   then Inl (ValueError ''One participant must be the node address'')
                   else
                     case (if tn_node_address tn = p2 then (p2, p1) else (p1, p2)) of
                       (q1, q2) \<Rightarrow>
                         Inr \<lparr>channel_unique_id = cuid,
                              channel_operations_lock = RLock None 0,
                              participant1 = q1,
                              participant2 = q2,
                              token_network = tn\<rparr>)))))),
       w\<lparr>calls := calls w @ [GetLogs (get_filter_args_for_specific_event_from_channel ext
                            (tn_address tn) (channel_id cuid) OPENED)]\<rparr>)"
  using assms by (simp add: PaymentChannel_init_def ledger_query_def Let_def)

text \<open>
  With a non-empty log whose last entry decodes to two participants, the constructor
  either raises for a node that is neither of them or builds the object.
\<close>

lemma init_decoded:
  assumes "0 \<le> channel_id cuid" and "channel_id cuid \<le> UINT256_MAX"
    and "tn_getLogs tn (get_filter_args_for_specific_event_from_channel ext
            (tn_address tn) (channel_id cuid) OPENED) (ledger w) = Inr events"
    and "events \<noteq> []"
    and "decode_event ext (last events) = Inr ev"
    and "args ev ''participant1'' = Some a1" and "decode_hex ext a1 = Inr p1"
    and "args ev ''participant2'' = Some a2" and "decode_hex ext a2 = Inr p2"
  shows "fst (PaymentChannel_init ext tn cuid w) =
    (if \<not> (tn_node_address tn = p1 \<or> tn_node_address tn = p2)
     then Inl (ValueError ''One participant must be the node address'')
     else Inr \<lparr>channel_unique_id = cuid,
               channel_operations_lock = RLock None 0,
               participant1 = (if tn_node_address tn = p2 then p2 else p1),
               participant2 = (if tn_node_address tn = p2 then p1 else p2),
               token_network = tn\<rparr>)"
  using assms by (simp add: in_range_init getitem_def)

text \<open>
  A constructor that returned an object was given an id in range.
\<close>

lemma init_success_in_range:
  assumes "fst (PaymentChannel_init ext tn cuid w) = Inr self"
  shows "0 \<le> channel_id cuid \<and> channel_id cuid \<le> UINT256_MAX"
proof (rule ccontr)
  assume "\<not> (0 \<le> channel_id cuid \<and> channel_id cuid \<le> UINT256_MAX)"
  then have "channel_id cuid < 0 \<or> channel_id cuid > UINT256_MAX" by auto
  then have "fst (PaymentChannel_init ext tn cuid w) =
      Inl (ValueError (''channel_identifier of '' @ format_ChannelUniqueID ext cuid
                            @ '' is not a uint256''))"
    by (simp add: PaymentChannel_init_def)
  with assms show False by simp
qed


subsection \<open>Range check (C6)\<close>

text \<open>
  C6. For a channel id below 0 or above \<open>2^256 - 1\<close> the constructor raises the
  \<^verbatim>\<open>ValueError\<close> of line 24 and leaves the world as it found it: the ledger is
  untouched and the call log has no new entry. For an id inside the range the check
  passes: the call log grows by exactly the ChannelOpened log query of this id, and the
  result of the constructor is what lines 33 to 50 make of the outcome of that query,
  so it is the error of line 24 for no id in range.
\<close>

theorem PaymentChannel_init_range_check:
  "(channel_id cuid < 0 \<or> channel_id cuid > 2 ^ 256 - 1 \<longrightarrow>
      PaymentChannel_init ext tn cuid w =
        (Inl (ValueError (''channel_identifier of '' @ format_ChannelUniqueID ext cuid
                            @ '' is not a uint256'')), w))
   \<and> (0 \<le> channel_id cuid \<and> channel_id cuid \<le> 2 ^ 256 - 1 \<longrightarrow>
      calls (snd (PaymentChannel_init ext tn cuid w)) =
        calls w @ [GetLogs (get_filter_args_for_specific_event_from_channel ext
                              (tn_address tn) (channel_id cuid) OPENED)]
      \<and> PaymentChannel_init ext tn cuid w =
        (and_then (tn_getLogs tn (get_filter_args_for_specific_event_from_channel ext
                            (tn_address tn) (channel_id cuid) OPENED) (ledger w)) (\<lambda>events.
               if \<not> length events > 0 then Inl (ValueError ''Channel is non-existing.'')
               else
                 and_then (decode_event ext (last events)) (\<lambda>ev.
                 and_then (getitem (args ev) ''participant1'') (\<lambda>a1.
                 and_then (decode_hex ext a1) (\<lambda>p1.
                 and_then (getitem (args ev) ''participant2'') (\<lambda>a2.
                 and_then (decode_hex ext a2) (\<lambda>p2.
                   if \<not> (tn_node_address tn = p1 \<or> tn_node_address tn = p2)
                   then Inl (ValueError ''One participant must be the node address'')
                   else
                     case (if tn_node_address tn = p2 then (p2, p1) else (p1, p2)) of
                       (q1, q2) \<Rightarrow>
                         Inr \<lparr>channel_unique_id = cuid,
                              channel_operations_lock = RLock None 0,
                              participant1 = q1,
                              participant2 = q2,
                              token_network = tn\<rparr>)))))),
         w\<lparr>calls := calls w @ [GetLogs (get_filter_args_for_specific_event_from_channel ext
                            (tn_address tn) (channel_id cuid) OPENED)]\<rparr>))"
proof (intro conjI impI)
  assume "channel_id cuid < 0 \<or> channel_id cuid > 2 ^ 256 - 1"
  then show "PaymentChannel_init ext tn cuid w =
        (Inl (ValueError (''channel_identifier of '' @ format_ChannelUniqueID ext cuid
                            @ '' is not a uint256'')), w)"
    by (simp add: PaymentChannel_init_def UINT256_MAX_def)
next
  assume "0 \<le> channel_id cuid \<and> channel_id cuid \<le> 2 ^ 256 - 1"
  then have "0 \<le> channel_id cuid" "channel_id cuid \<le> UINT256_MAX"
    by (simp_all add: UINT256_MAX_def)
  then show "calls (snd (PaymentChannel_init ext tn cuid w)) =
        calls w @ [GetLogs (get_filter_args_for_specific_event_from_channel ext
                              (tn_address tn) (channel_id cuid) OPENED)]"
    by (simp add: in_range_init)
next
  assume "0 \<le> channel_id cuid \<and> channel_id cuid \<le> 2 ^ 256 - 1"
  then have r: "0 \<le> channel_id cuid" "channel_id cuid \<le> UINT256_MAX"
    by (simp_all add: UINT256_MAX_def)
  show "PaymentChannel_init ext tn cuid w =
        (and_then (tn_getLogs tn (get_filter_args_for_specific_event_from_channel ext
                            (tn_address tn) (channel_id cuid) OPENED) (ledger w)) (\<lambda>events.
               if \<not> length events > 0 then Inl (ValueError ''Channel is non-existing.'')
               else
                 and_then (decode_event ext (last events)) (\<lambda>ev.
                 and_then (getitem (args ev) ''participant1'') (\<lambda>a1.
                 and_then (decode_hex ext a1) (\<lambda>p1.
                 and_then (getitem (args ev) ''participant2'') (\<lambda>a2.
                 and_then (decode_hex ext a2) (\<lambda>p2.
                   if \<not> (tn_node_address tn = p1 \<or> tn_node_address tn = p2)
                   then Inl (ValueError ''One participant must be the node address'')
                   else
                     case (if tn_node_address tn = p2 then (p2, p1) else (p1, p2)) of
                       (q1, q2) \<Rightarrow>
                         Inr \<lparr>channel_unique_id = cuid,
                              channel_operations_lock = RLock None 0,
                              participant1 = q1,
                              participant2 = q2,
                              token_network = tn\<rparr>)))))),
         w\<lparr>calls := calls w @ [GetLogs (get_filter_args_for_specific_event_from_channel ext
                            (tn_address tn) (channel_id cuid) OPENED)]\<rparr>)"
    by (rule in_range_init [OF r])
qed

theorem PaymentChannel_init_range_check_witness:
  "PaymentChannel_init ex_ext (ex_tn [0xBB]) \<lparr>token_address = [0x22], channel_id = - 1\<rparr>
       (ex_world 7 ''0xaa'' ''0xbb'') =
     (Inl (ValueError ''channel_identifier of ChannelUniqueID is not a uint256''),
      ex_world 7 ''0xaa'' ''0xbb'')
   \<and> PaymentChannel_init ex_ext (ex_tn [0xBB]) \<lparr>token_address = [0x22], channel_id = 2 ^ 256\<rparr>
       (ex_world 7 ''0xaa'' ''0xbb'') =
     (Inl (ValueError ''channel_identifier of ChannelUniqueID is not a uint256''),
      ex_world 7 ''0xaa'' ''0xbb'')
   \<and> PaymentChannel_init ex_ext (ex_tn [0xBB]) \<lparr>token_address = [0x22], channel_id = 7\<rparr>
       (ex_world 7 ''0xaa'' ''0xbb'') =
     (Inr ex_channel, (ex_world 7 ''0xaa'' ''0xbb'')\<lparr>calls := [GetLogs (OPENED, 7)]\<rparr>)
   \<and> PaymentChannel_init ex_ext (ex_tn [0xBB]) \<lparr>token_address = [0x22], channel_id = 2 ^ 256 - 1\<rparr>
       (ex_world 7 ''0xaa'' ''0xbb'') =
     (Inl (ValueError ''Channel is non-existing.''),
      (ex_world 7 ''0xaa'' ''0xbb'')\<lparr>calls := [GetLogs (OPENED, 2 ^ 256 - 1)]\<rparr>)"
  using PaymentChannel_init_range_check [of "\<lparr>token_address = [0x22], channel_id = - 1\<rparr>" ex_ext "ex_tn [0xBB]"
               "ex_world 7 ''0xaa'' ''0xbb''"]
        PaymentChannel_init_range_check [of "\<lparr>token_address = [0x22], channel_id = 2 ^ 256\<rparr>" ex_ext "ex_tn [0xBB]"
               "ex_world 7 ''0xaa'' ''0xbb''"]
        PaymentChannel_init_range_check [of "\<lparr>token_address = [0x22], channel_id = 7\<rparr>" ex_ext "ex_tn [0xBB]"
               "ex_world 7 ''0xaa'' ''0xbb''"]
        PaymentChannel_init_range_check [of "\<lparr>token_address = [0x22], channel_id = 2 ^ 256 - 1\<rparr>" ex_ext "ex_tn [0xBB]"
               "ex_world 7 ''0xaa'' ''0xbb''"]
  by (simp add: ex_ext_def ex_tn_def ex_world_def ex_getLogs_def ex_opened_def
        ex_decode_hex_def getitem_def ex_channel_def)

subsection \<open>No ChannelOpened event (C7)\<close>

text \<open>
  C7. For an id in range whose ChannelOpened log query returns no entry, the constructor
  raises \<^verbatim>\<open>ValueError('Channel is non-existing.')\<close>; its result is an error, not
  an object.
\<close>

theorem PaymentChannel_init_no_opened_event:
  assumes "0 \<le> channel_id cuid" and "channel_id cuid \<le> UINT256_MAX"
    and "tn_getLogs tn (get_filter_args_for_specific_event_from_channel ext
            (tn_address tn) (channel_id cuid) OPENED) (ledger w) = Inr []"
  shows "fst (PaymentChannel_init ext tn cuid w) = Inl (ValueError ''Channel is non-existing.'')"
  using assms by (simp add: in_range_init)

theorem PaymentChannel_init_no_opened_event_witness:
  "fst (PaymentChannel_init ex_ext (ex_tn [0xBB]) \<lparr>token_address = [0x22], channel_id = 8\<rparr>
       (ex_world 7 ''0xaa'' ''0xbb'')) = Inl (ValueError ''Channel is non-existing.'')"
  using PaymentChannel_init_no_opened_event [of "\<lparr>token_address = [0x22], channel_id = 8\<rparr>" "ex_tn [0xBB]" ex_ext
               "ex_world 7 ''0xaa'' ''0xbb''"]
  by (simp add: ex_ext_def ex_tn_def ex_world_def ex_getLogs_def UINT256_MAX_def)

subsection \<open>Canonical order of the participants (C1)\<close>



subsection \<open>The node is not a participant (C8)\<close>



subsection \<open>One exception class for the three failures (C10)\<close>

text \<open>
  C10. The three failures of the constructor, an id out of range, an empty ChannelOpened
  log and a node that is not a participant, are all raised as \<^verbatim>\<open>ValueError\<close>; the
  three messages are pairwise different, so the message is the only thing that tells
  them apart.
\<close>

theorem PaymentChannel_init_failures_ValueError:
  "(channel_id cuid < 0 \<or> channel_id cuid > UINT256_MAX \<longrightarrow>
      fst (PaymentChannel_init ext tn cuid w) =
        Inl (ValueError (''channel_identifier of '' @ format_ChannelUniqueID ext cuid
                           @ '' is not a uint256'')))
   \<and> (0 \<le> channel_id cuid \<and> channel_id cuid \<le> UINT256_MAX
       \<and> tn_getLogs tn (get_filter_args_for_specific_event_from_channel ext
            (tn_address tn) (channel_id cuid) OPENED) (ledger w) = Inr []
     \<longrightarrow> fst (PaymentChannel_init ext tn cuid w) = Inl (ValueError ''Channel is non-existing.''))
   \<and> (0 \<le> channel_id cuid \<and> channel_id cuid \<le> UINT256_MAX
       \<and> tn_getLogs tn (get_filter_args_for_specific_event_from_channel ext
            (tn_address tn) (channel_id cuid) OPENED) (ledger w) = Inr events
       \<and> events \<noteq> []
       \<and> decode_event ext (last events) = Inr ev
       \<and> args ev ''participant1'' = Some a1 \<and> decode_hex ext a1 = Inr p1
       \<and> args ev ''participant2'' = Some a2 \<and> decode_hex ext a2 = Inr p2
       \<and> tn_node_address tn \<noteq> p1 \<and> tn_node_address tn \<noteq> p2
     \<longrightarrow> fst (PaymentChannel_init ext tn cuid w) =
           Inl (ValueError ''One participant must be the node address''))
   \<and> ''channel_identifier of '' @ format_ChannelUniqueID ext cuid @ '' is not a uint256''
         \<noteq> ''Channel is non-existing.''
   \<and> ''channel_identifier of '' @ format_ChannelUniqueID ext cuid @ '' is not a uint256''
         \<noteq> ''One participant must be the node address''
   \<and> ''Channel is non-existing.'' \<noteq> ''One participant must be the node address''"
proof (intro conjI impI)
  assume "channel_id cuid < 0 \<or> channel_id cuid > UINT256_MAX"
  then show "fst (PaymentChannel_init ext tn cuid w) =
        Inl (ValueError (''channel_identifier of '' @ format_ChannelUniqueID ext cuid
                           @ '' is not a uint256''))"
    by (simp add: PaymentChannel_init_def)
next
  assume "0 \<le> channel_id cuid \<and> channel_id cuid \<le> UINT256_MAX
       \<and> tn_getLogs tn (get_filter_args_for_specific_event_from_channel ext
            (tn_address tn) (channel_id cuid) OPENED) (ledger w) = Inr []"
  then show "fst (PaymentChannel_init ext tn cuid w) = Inl (ValueError ''Channel is non-existing.'')"
    by (simp add: in_range_init)
next
  assume a: "0 \<le> channel_id cuid \<and> channel_id cuid \<le> UINT256_MAX
       \<and> tn_getLogs tn (get_filter_args_for_specific_event_from_channel ext
            (tn_address tn) (channel_id cuid) OPENED) (ledger w) = Inr events
       \<and> events \<noteq> []
       \<and> decode_event ext (last events) = Inr ev
       \<and> args ev ''participant1'' = Some a1 \<and> decode_hex ext a1 = Inr p1
       \<and> args ev ''participant2'' = Some a2 \<and> decode_hex ext a2 = Inr p2
       \<and> tn_node_address tn \<noteq> p1 \<and> tn_node_address tn \<noteq> p2"
  then show "fst (PaymentChannel_init ext tn cuid w) =
           Inl (ValueError ''One participant must be the node address'')"
    using init_decoded [of cuid tn ext w events ev a1 p1 a2 p2] by simp
qed simp_all

theorem PaymentChannel_init_failures_ValueError_witness:
  "fst (PaymentChannel_init ex_ext (ex_tn [0xCC]) \<lparr>token_address = [0x22], channel_id = 2 ^ 256\<rparr>
          (ex_world 7 ''0xaa'' ''0xbb'')) =
      Inl (ValueError ''channel_identifier of ChannelUniqueID is not a uint256'')
   \<and> fst (PaymentChannel_init ex_ext (ex_tn [0xCC]) \<lparr>token_address = [0x22], channel_id = 8\<rparr>
          (ex_world 7 ''0xaa'' ''0xbb'')) = Inl (ValueError ''Channel is non-existing.'')
   \<and> fst (PaymentChannel_init ex_ext (ex_tn [0xCC]) \<lparr>token_address = [0x22], channel_id = 7\<rparr>
          (ex_world 7 ''0xaa'' ''0xbb'')) =
      Inl (ValueError ''One participant must be the node address'')"
  using PaymentChannel_init_failures_ValueError [of "\<lparr>token_address = [0x22], channel_id = 2 ^ 256\<rparr>" ex_ext "ex_tn [0xCC]"
               "ex_world 7 ''0xaa'' ''0xbb''"]
        PaymentChannel_init_failures_ValueError [of "\<lparr>token_address = [0x22], channel_id = 8\<rparr>" ex_ext "ex_tn [0xCC]"
               "ex_world 7 ''0xaa'' ''0xbb''"]
        PaymentChannel_init_failures_ValueError [of "\<lparr>token_address = [0x22], channel_id = 7\<rparr>" ex_ext "ex_tn [0xCC]"
               "ex_world 7 ''0xaa'' ''0xbb''" "[ex_opened ''0xaa'' ''0xbb'']"
               "ex_opened ''0xaa'' ''0xbb''" "Text ''0xaa''" "[0xAA]" "Text ''0xbb''" "[0xBB]"]
  by (simp add: ex_ext_def ex_tn_def ex_world_def ex_getLogs_def UINT256_MAX_def
        ex_opened_def ex_decode_hex_def)

subsection \<open>The block of the close (C3)\<close>

text \<open>
  C3. \<^verbatim>\<open>close_block_number\<close> returns \<^verbatim>\<open>None\<close> when the ChannelClosed log
  query of this channel returns no entry, the block number of the decoded entry when it
  returns exactly one, and raises the \<^verbatim>\<open>AssertionError\<close> of line 106 when it
  returns more than one.
\<close>

theorem close_block_number_cases:
  "(tn_getLogs (token_network self)
       (get_filter_args_for_specific_event_from_channel ext
          (tn_address (token_network self)) (channel_identifier self) CLOSED) (ledger w) = Inr []
     \<longrightarrow> fst (close_block_number ext self w) = Inr None)
   \<and> (tn_getLogs (token_network self)
       (get_filter_args_for_specific_event_from_channel ext
          (tn_address (token_network self)) (channel_identifier self) CLOSED) (ledger w) = Inr [l]
       \<and> decode_event ext l = Inr ev
     \<longrightarrow> fst (close_block_number ext self w) = Inr (Some (blockNumber ev)))
   \<and> (tn_getLogs (token_network self)
       (get_filter_args_for_specific_event_from_channel ext
          (tn_address (token_network self)) (channel_identifier self) CLOSED) (ledger w) = Inr events
       \<and> length events > 1
     \<longrightarrow> fst (close_block_number ext self w) = Inl (AssertionError []))"
  by (auto simp add: close_block_number_def ledger_query_def Let_def)

theorem close_block_number_cases_witness:
  "fst (close_block_number ex_ext ex_channel (ex_world 7 ''0xaa'' ''0xbb'')) = Inr None
   \<and> fst (close_block_number ex_ext ex_channel
        \<lparr>ledger = [(OPENED, 7, ex_opened ''0xaa'' ''0xbb''), (CLOSED, 7, ex_closed 1000)],
         tn_channel_operations_lock = fresh_locks, calls = []\<rparr>) = Inr (Some 1000)
   \<and> fst (close_block_number ex_ext ex_channel
        \<lparr>ledger = [(CLOSED, 7, ex_closed 1000), (CLOSED, 7, ex_closed 1001)],
         tn_channel_operations_lock = fresh_locks, calls = []\<rparr>) = Inl (AssertionError [])"
  using close_block_number_cases [of ex_channel ex_ext "ex_world 7 ''0xaa'' ''0xbb''"]
        close_block_number_cases [of ex_channel ex_ext
              "\<lparr>ledger = [(OPENED, 7, ex_opened ''0xaa'' ''0xbb''), (CLOSED, 7, ex_closed 1000)],
                tn_channel_operations_lock = fresh_locks, calls = []\<rparr>" "ex_closed 1000" "ex_closed 1000"]
        close_block_number_cases [of ex_channel ex_ext
              "\<lparr>ledger = [(CLOSED, 7, ex_closed 1000), (CLOSED, 7, ex_closed 1001)],
                tn_channel_operations_lock = fresh_locks, calls = []\<rparr>" _ _ "[ex_closed 1000, ex_closed 1001]"]
  by (simp add: ex_ext_def ex_tn_def ex_world_def ex_getLogs_def ex_channel_def
        channel_identifier_def ex_closed_def)

subsection \<open>The settle timeout (C4)\<close>

text \<open>
  C4. \<^verbatim>\<open>settle_timeout\<close> returns the \<^verbatim>\<open>settle_timeout\<close> argument of the last
  entry of the ChannelOpened log of this channel, and raises the \<^verbatim>\<open>AssertionError\<close>
  of line 85 when that log is empty, whatever object it is called on.
\<close>

theorem settle_timeout_latest_opened:
  "(tn_getLogs (token_network self)
       (get_filter_args_for_specific_event_from_channel ext
          (tn_address (token_network self)) (channel_identifier self) OPENED) (ledger w) = Inr events
       \<and> events \<noteq> []
       \<and> decode_event ext (last events) = Inr ev
       \<and> args ev ''settle_timeout'' = Some (Number n)
     \<longrightarrow> fst (settle_timeout ext self w) = Inr (Number n))
   \<and> (tn_getLogs (token_network self)
       (get_filter_args_for_specific_event_from_channel ext
          (tn_address (token_network self)) (channel_identifier self) OPENED) (ledger w) = Inr []
     \<longrightarrow> fst (settle_timeout ext self w) =
           Inl (AssertionError ''No matching ChannelOpen event found.''))"
  by (auto simp add: settle_timeout_def ledger_query_def Let_def getitem_def)

theorem settle_timeout_latest_opened_witness:
  "fst (settle_timeout ex_ext ex_channel (ex_world 7 ''0xaa'' ''0xbb'')) = Inr (Number 500)
   \<and> fst (settle_timeout ex_ext ex_channel \<lparr>ledger = [], tn_channel_operations_lock = fresh_locks, calls = []\<rparr>) =
       Inl (AssertionError ''No matching ChannelOpen event found.'')"
  using settle_timeout_latest_opened [of ex_channel ex_ext "ex_world 7 ''0xaa'' ''0xbb''"
              "[ex_opened ''0xaa'' ''0xbb'']" "ex_opened ''0xaa'' ''0xbb''" 500]
        settle_timeout_latest_opened [of ex_channel ex_ext "\<lparr>ledger = [], tn_channel_operations_lock = fresh_locks, calls = []\<rparr>"]
  by (simp add: ex_ext_def ex_tn_def ex_world_def ex_getLogs_def ex_channel_def
        channel_identifier_def ex_opened_def)

subsection \<open>Identity of the object (C9)\<close>

text \<open>
  C9, as the code has it. After a successful construction \<open>participant1\<close> is the
  node address, and \<open>participant1\<close> differs from \<open>participant2\<close> exactly when the
  two decoded participants differ. Every query and every transaction returns the object
  it was called on unchanged, so the channel id and both participants stay as the
  constructor set them.
\<close>

theorem PaymentChannel_identity_frozen:
  assumes "fst (PaymentChannel_init ext tn cuid w) = Inr self"
    and "tn_getLogs tn (get_filter_args_for_specific_event_from_channel ext
            (tn_address tn) (channel_id cuid) OPENED) (ledger w) = Inr events"
    and "decode_event ext (last events) = Inr ev"
    and "args ev ''participant1'' = Some a1" and "decode_hex ext a1 = Inr p1"
    and "args ev ''participant2'' = Some a2" and "decode_hex ext a2 = Inr p2"
  shows "participant1 self = tn_node_address tn
    \<and> (participant1 self \<noteq> participant2 self) = (p1 \<noteq> p2)
    \<and> channel_unique_id self = cuid
    \<and> fst (snd (detail self w1)) = self
    \<and> fst (snd (settle_timeout ext' self w1)) = self
    \<and> fst (snd (close_block_number ext' self w1)) = self
    \<and> fst (snd (opened self w1)) = self
    \<and> fst (snd (closed self w1)) = self
    \<and> fst (snd (settled self w1)) = self
    \<and> fst (snd (closing_address self w1)) = self
    \<and> fst (snd (can_transfer self w1)) = self
    \<and> fst (snd (set_total_deposit self total_deposit w1)) = self
    \<and> fst (snd (close self nonce balance_hash additional_hash signature w1)) = self
    \<and> fst (snd (update_transfer self nonce balance_hash additional_hash
                   partner_signature signature w1)) = self
    \<and> fst (snd (unlock self merkle_tree_leaves w1)) = self
    \<and> fst (snd (settle self transferred_amount locked_amount locksroot
                   partner_transferred_amount partner_locked_amount partner_locksroot w1)) = self
    \<and> fst (snd (all_events_filter self from_block to_block w1)) = self"
proof -
  have range: "0 \<le> channel_id cuid" "channel_id cuid \<le> UINT256_MAX"
    using init_success_in_range [OF assms(1)] by simp_all
  have nonempty: "events \<noteq> []"
  proof
    assume "events = []"
    with assms(2) have "fst (PaymentChannel_init ext tn cuid w) =
        Inl (ValueError ''Channel is non-existing.'')"
      by (simp add: in_range_init range)
    with assms(1) show False by simp
  qed
  note dec = init_decoded [OF range assms(2) nonempty assms(3-7)]
  have node: "tn_node_address tn = p1 \<or> tn_node_address tn = p2"
    using dec assms(1) by (auto split: if_splits)
  have self: "self = \<lparr>channel_unique_id = cuid,
               channel_operations_lock = RLock None 0,
               participant1 = (if tn_node_address tn = p2 then p2 else p1),
               participant2 = (if tn_node_address tn = p2 then p1 else p2),
               token_network = tn\<rparr>"
    using dec assms(1) node by simp
  have ident: "participant1 self = tn_node_address tn"
    "(participant1 self \<noteq> participant2 self) = (p1 \<noteq> p2)"
    "channel_unique_id self = cuid"
    using node by (auto simp add: self)
  have queries: "fst (snd (detail self w1)) = self"
    "fst (snd (settle_timeout ext' self w1)) = self"
    "fst (snd (close_block_number ext' self w1)) = self"
    "fst (snd (opened self w1)) = self"
    "fst (snd (closed self w1)) = self"
    "fst (snd (settled self w1)) = self"
    "fst (snd (closing_address self w1)) = self"
    "fst (snd (can_transfer self w1)) = self"
    by (simp_all add: detail_def settle_timeout_def close_block_number_def opened_def
          closed_def settled_def closing_address_def can_transfer_def Let_def
          split: prod.split)
  have transactions: "fst (snd (set_total_deposit self total_deposit w1)) = self"
    "fst (snd (close self nonce balance_hash additional_hash signature w1)) = self"
    "fst (snd (update_transfer self nonce balance_hash additional_hash
                   partner_signature signature w1)) = self"
    "fst (snd (unlock self merkle_tree_leaves w1)) = self"
    "fst (snd (settle self transferred_amount locked_amount locksroot
                   partner_transferred_amount partner_locked_amount partner_locksroot w1)) = self"
    "fst (snd (all_events_filter self from_block to_block w1)) = self"
    by (simp_all add: set_total_deposit_def close_def update_transfer_def unlock_def
          settle_def all_events_filter_def Let_def split: prod.split)
  from ident queries transactions show ?thesis by blast
qed

theorem PaymentChannel_identity_frozen_witness:
  "participant1 ex_channel = [0xBB] \<and> participant1 ex_channel \<noteq> participant2 ex_channel
   \<and> fst (snd (close ex_channel 3 [] [] [] (ex_world 7 ''0xaa'' ''0xbb''))) = ex_channel
   \<and> fst (snd (settle_timeout ex_ext ex_channel (ex_world 7 ''0xaa'' ''0xbb''))) = ex_channel"
proof -
  have init: "fst (PaymentChannel_init ex_ext (ex_tn [0xBB])
                \<lparr>token_address = [0x22], channel_id = 7\<rparr> (ex_world 7 ''0xaa'' ''0xbb''))
              = Inr ex_channel"
    by (simp add: in_range_init UINT256_MAX_def ex_ext_def ex_tn_def ex_world_def ex_getLogs_def
        ex_opened_def ex_decode_hex_def getitem_def ex_channel_def)
  show ?thesis
    using PaymentChannel_identity_frozen [OF init, of "[ex_opened ''0xaa'' ''0xbb'']" "ex_opened ''0xaa'' ''0xbb''"
                "Text ''0xaa''" "[0xAA]" "Text ''0xbb''" "[0xBB]"
                "ex_world 7 ''0xaa'' ''0xbb''" ex_ext  _ 3 "[]" "[]" "[]"]
    by (simp add: ex_ext_def ex_tn_def ex_world_def ex_getLogs_def ex_opened_def ex_decode_hex_def
          ex_channel_def)
qed

text \<open>
  The constructor does not compare the two participants: an event that names the node
  twice gives an object with \<open>participant1 = participant2\<close>.
\<close>

theorem PaymentChannel_init_same_participants:
  "fst (PaymentChannel_init ex_ext (ex_tn [0xAA]) \<lparr>token_address = [0x22], channel_id = 7\<rparr>
          (ex_world 7 ''0xaa'' ''0xaa'')) =
     Inr \<lparr>channel_unique_id = \<lparr>token_address = [0x22], channel_id = 7\<rparr>,
          channel_operations_lock = RLock None 0,
          participant1 = [0xAA],
          participant2 = [0xAA],
          token_network = ex_tn [0xAA]\<rparr>"
  by (simp add: in_range_init UINT256_MAX_def ex_ext_def ex_tn_def ex_world_def ex_getLogs_def
        ex_opened_def ex_decode_hex_def getitem_def)

subsection \<open>The lock of the partner and the transactions (C2)\<close>





subsection \<open>The subscription to all events of the channel (C5)\<close>

text \<open>
  The sixteen digits are pairwise different.
\<close>

lemma hex_digit_inj:
  assumes "a < 16" and "b < 16" and "hex_digit a = hex_digit b"
  shows "a = b"
proof -
  have d: "distinct ''0123456789abcdef''" by simp
  have l: "length ''0123456789abcdef'' = 16" by simp
  from assms show ?thesis
    unfolding hex_digit_def using nth_eq_iff_index_eq [OF d, of a b] l by simp
qed

lemma fixed_hex_zero: "fixed_hex k 0 = replicate k CHR ''0''"
proof (induction k)
  case 0
  show ?case by simp
next
  case (Suc k)
  have "hex_digit 0 = CHR ''0''" by (simp add: hex_digit_def)
  with Suc show ?case by (simp add: replicate_append_same)
qed

lemma length_fixed_hex: "length (fixed_hex k n) = k"
  by (induction k arbitrary: n) simp_all

text \<open>
  A number below \<open>16^k\<close> is printed with at most \<open>k\<close> digits, so padding it to
  \<open>k\<close> characters gives its numeral of exactly \<open>k\<close> digits.
\<close>

lemma length_hex_of_nat:
  "n < 16 ^ Suc k \<Longrightarrow> length (hex_of_nat n) \<le> Suc k"
proof (induction k arbitrary: n)
  case 0
  then show ?case by (simp add: hex_of_nat.simps [of n])
next
  case (Suc k)
  show ?case
  proof (cases "n < 16")
    case True
    then show ?thesis by (simp add: hex_of_nat.simps [of n])
  next
    case False
    from Suc.prems have "n div 16 < 16 ^ Suc k"
      by (simp add: less_mult_imp_div_less mult.commute)
    from Suc.IH [OF this] False show ?thesis
      by (simp add: hex_of_nat.simps [of n])
  qed
qed

lemma zero_pad_snoc:
  "length s \<le> k \<Longrightarrow> zero_pad (Suc k) (s @ [c]) = zero_pad k s @ [c]"
  by (simp add: zero_pad_def)

lemma zero_pad_hex_of_nat:
  "n < 16 ^ Suc k \<Longrightarrow> zero_pad (Suc k) (hex_of_nat n) = fixed_hex (Suc k) n"
proof (induction k arbitrary: n)
  case 0
  then show ?case by (simp add: hex_of_nat.simps [of n] zero_pad_def)
next
  case (Suc k)
  show ?case
  proof (cases "n < 16")
    case True
    then have "fixed_hex (Suc k) (n div 16) = replicate (Suc k) CHR ''0''"
      using fixed_hex_zero [of "Suc k"] by simp
    with True show ?thesis
      by (simp add: hex_of_nat.simps [of n] zero_pad_def)
  next
    case False
    from Suc.prems have small: "n div 16 < 16 ^ Suc k"
      by (simp add: less_mult_imp_div_less mult.commute)
    have "zero_pad (Suc (Suc k)) (hex_of_nat n) =
            zero_pad (Suc k) (hex_of_nat (n div 16)) @ [hex_digit (n mod 16)]"
      using False length_hex_of_nat [OF small]
      by (simp add: hex_of_nat.simps [of n] zero_pad_snoc)
    also have "\<dots> = fixed_hex (Suc k) (n div 16) @ [hex_digit (n mod 16)]"
      using Suc.IH [OF small] by simp
    finally show ?thesis by simp
  qed
qed

text \<open>
  Different numbers below \<open>16^k\<close> have different numerals of \<open>k\<close> digits.
\<close>

lemma fixed_hex_inj:
  "a < 16 ^ k \<Longrightarrow> b < 16 ^ k \<Longrightarrow> fixed_hex k a = fixed_hex k b \<Longrightarrow> a = b"
proof (induction k arbitrary: a b)
  case 0
  then show ?case by simp
next
  case (Suc k)
  from Suc.prems(1) have a: "a div 16 < 16 ^ k"
    by (simp add: less_mult_imp_div_less mult.commute)
  from Suc.prems(2) have b: "b div 16 < 16 ^ k"
    by (simp add: less_mult_imp_div_less mult.commute)
  from Suc.prems(3) have hi: "fixed_hex k (a div 16) = fixed_hex k (b div 16)"
    and lo: "hex_digit (a mod 16) = hex_digit (b mod 16)"
    by simp_all
  have "a div 16 = b div 16" using Suc.IH [OF a b hi] .
  moreover have "a mod 16 = b mod 16"
    using hex_digit_inj [OF _ _ lo] by simp
  ultimately show ?case by (metis div_mult_mod_eq)
qed

text \<open>
  For an id in range the text the method formats is the topic of that id.
\<close>

lemma format_064x_uint256:
  assumes "0 \<le> c" and "c \<le> UINT256_MAX"
  shows "''0x'' @ format_064x c = uint256_topic c"
proof -
  have "(16::nat) ^ 64 = 2 ^ 256" by simp
  have "nat c < 2 ^ 256"
    using assms by (simp add: UINT256_MAX_def nat_less_iff)
  then have "nat c < 16 ^ Suc 63" by simp
  from zero_pad_hex_of_nat [OF this] assms(1) show ?thesis
    by (simp add: format_064x_def uint256_topic_def)
qed

lemma uint256_topic_inj:
  assumes "0 \<le> a" "a \<le> UINT256_MAX" "0 \<le> b" "b \<le> UINT256_MAX"
    and "uint256_topic a = uint256_topic b"
  shows "a = b"
proof -
  have "nat a < 16 ^ 64" "nat b < 16 ^ 64"
    using assms(1-4) by (simp_all add: UINT256_MAX_def nat_less_iff)
  from fixed_hex_inj [OF this] assms(5) have "nat a = nat b"
    by (simp add: uint256_topic_def)
  with assms(1,3) show ?thesis by simp
qed

lemma and_then_Inr_iff:
  "and_then m f = Inr y \<longleftrightarrow> (\<exists>x. m = Inr x \<and> f x = Inr y)"
  by (cases m) simp_all

lemma init_success_fields:
  assumes "fst (PaymentChannel_init ext tn cuid w) = Inr self"
  shows "channel_unique_id self = cuid \<and> token_network self = tn
    \<and> participant1 self = tn_node_address tn"
proof -
  have range: "0 \<le> channel_id cuid" "channel_id cuid \<le> UINT256_MAX"
    using init_success_in_range [OF assms] by simp_all
  from assms show ?thesis
    by (auto simp add: in_range_init [OF range] and_then_Inr_iff split: if_splits)
qed

lemma uint256_topic_7:
  "uint256_topic 7 = ''0x0000000000000000000000000000000000000000000000000000000000000007''"
  by code_simp

lemma uint256_topic_8:
  "uint256_topic 8 = ''0x0000000000000000000000000000000000000000000000000000000000000008''"
  by code_simp

text \<open>
  C5. For an object the constructor returned and any two block arguments,
  \<^verbatim>\<open>all_events_filter\<close> makes one call of \<^verbatim>\<open>new_filter\<close>, with the address of the
  token network, the block arguments as given and the topic list \<^verbatim>\<open>[None, t]\<close>, where
  \<open>t\<close> is \<^verbatim>\<open>0x\<close> followed by the 64 hexadecimal digits of the channel id, and
  returns what that call returns. The first topic of an entry, the event signature, is
  not constrained; an entry whose second topic is the encoding of a channel id \<open>c\<close>
  in range matches exactly when \<open>c\<close> is the id of this channel.
\<close>

theorem all_events_filter_topics:
  assumes "fst (PaymentChannel_init ext tn cuid w0) = Inr self"
  shows "calls (snd (snd (all_events_filter self from_block to_block w))) =
           calls w @ [NewFilter (tn_address tn)
                        [None, Some (uint256_topic (channel_id cuid))] from_block to_block]
    \<and> fst (all_events_filter self from_block to_block w) =
           fst (tn_new_filter tn (tn_address tn)
                  [None, Some (uint256_topic (channel_id cuid))] from_block to_block (ledger w))
    \<and> length (uint256_topic (channel_id cuid)) = 66
    \<and> (0 \<le> c \<and> c \<le> UINT256_MAX \<longrightarrow>
         topics_match [None, Some (uint256_topic (channel_id cuid))]
                      (signature # uint256_topic c # rest) = (c = channel_id cuid))"
proof -
  have range: "0 \<le> channel_id cuid" "channel_id cuid \<le> UINT256_MAX"
    using init_success_in_range [OF assms] by simp_all
  have fields: "channel_unique_id self = cuid" "token_network self = tn"
    using init_success_fields [OF assms] by simp_all
  have topic: "''0x'' @ format_064x (channel_identifier self) = uint256_topic (channel_id cuid)"
    using format_064x_uint256 [OF range] by (simp add: channel_identifier_def fields)
  have call: "calls (snd (snd (all_events_filter self from_block to_block w))) =
           calls w @ [NewFilter (tn_address tn)
                        [None, Some (uint256_topic (channel_id cuid))] from_block to_block]"
    using topic
    by (simp add: all_events_filter_def ledger_transact_def fields Let_def split: prod.split)
  have result: "fst (all_events_filter self from_block to_block w) =
           fst (tn_new_filter tn (tn_address tn)
                  [None, Some (uint256_topic (channel_id cuid))] from_block to_block (ledger w))"
    using topic
    by (simp add: all_events_filter_def ledger_transact_def fields Let_def split: prod.split)
  have len: "length (uint256_topic (channel_id cuid)) = 66"
    by (simp add: uint256_topic_def length_fixed_hex)
  have match: "0 \<le> c \<and> c \<le> UINT256_MAX \<longrightarrow>
         topics_match [None, Some (uint256_topic (channel_id cuid))]
                      (signature # uint256_topic c # rest) = (c = channel_id cuid)"
    using uint256_topic_inj [of "channel_id cuid" c] range by auto
  from call result len match show ?thesis by blast
qed

theorem all_events_filter_topics_witness:
  "calls (snd (snd (all_events_filter ex_channel None (Some (BlockNumber 950))
                      (ex_world 7 ''0xaa'' ''0xbb'')))) =
     [NewFilter [0x11]
        [None, Some ''0x0000000000000000000000000000000000000000000000000000000000000007'']
        None (Some (BlockNumber 950))]
   \<and> topics_match
        [None, Some ''0x0000000000000000000000000000000000000000000000000000000000000007'']
        [''ChannelClosed'',
         ''0x0000000000000000000000000000000000000000000000000000000000000007'']
   \<and> \<not> topics_match
        [None, Some ''0x0000000000000000000000000000000000000000000000000000000000000007'']
        [''ChannelClosed'',
         ''0x0000000000000000000000000000000000000000000000000000000000000008'']"
proof -
  have init: "fst (PaymentChannel_init ex_ext (ex_tn [0xBB])
                \<lparr>token_address = [0x22], channel_id = 7\<rparr> (ex_world 7 ''0xaa'' ''0xbb''))
              = Inr ex_channel"
    by (simp add: in_range_init UINT256_MAX_def ex_ext_def ex_tn_def ex_world_def ex_getLogs_def
        ex_opened_def ex_decode_hex_def getitem_def ex_channel_def)
  show ?thesis
    using all_events_filter_topics [OF init, of None "Some (BlockNumber 950)" "ex_world 7 ''0xaa'' ''0xbb''"
                7 "''ChannelClosed''" "[]"]
          all_events_filter_topics [OF init, of None "Some (BlockNumber 950)" "ex_world 7 ''0xaa'' ''0xbb''"
                8 "''ChannelClosed''" "[]"]
    by (simp add: uint256_topic_7 uint256_topic_8 UINT256_MAX_def ex_tn_def ex_world_def)
qed

end
